theory Spec2Isabelle
  imports Main "HOL-Library.Sublist"
begin

section \<open>Strings and the string primitives of the host language\<close>

text \<open>
  The plugin is TypeScript; its strings are sequences of code units. The model uses
  \<^typ>\<open>string\<close>, so it covers the code units \<open>0x00\<close> to \<open>0xFF\<close>. Of the characters that
  the regular-expression classes of \<^verbatim>\<open>main.ts\<close> single out, these are the ones in
  that range: white space \<open>\s\<close> is TAB, LF, VT, FF, CR, SPACE and NBSP, and the line
  terminators (which \<open>.\<close> does not match without the \<open>s\<close> flag) are LF and CR.
\<close>

abbreviation nl :: char where "nl \<equiv> CHR 0x0A"
abbreviation dq :: char where "dq \<equiv> CHR 0x22"
abbreviation sq :: char where "sq \<equiv> CHR 0x27"

definition is_space :: "char \<Rightarrow> bool" where
  "is_space c \<longleftrightarrow>
     c = CHR 0x09 \<or> c = CHR 0x0A \<or> c = CHR 0x0B \<or> c = CHR 0x0C \<or> c = CHR 0x0D \<or>
     c = CHR 0x20 \<or> c = CHR 0xA0"

definition is_line_terminator :: "char \<Rightarrow> bool" where
  "is_line_terminator c \<longleftrightarrow> c = CHR 0x0A \<or> c = CHR 0x0D"

text \<open>\<open>String.prototype.trim\<close>: white space and line terminators go from both ends.\<close>

definition trim :: "string \<Rightarrow> string" where
  "trim s = rev (dropWhile is_space (rev (dropWhile is_space s)))"

text \<open>
  \<open>s.split(',')\<close> with a one-character separator. The empty string splits into one
  empty piece: \<open>''.split(',')\<close> is \<open>['']\<close>.
\<close>

fun split_on :: "char \<Rightarrow> string \<Rightarrow> string list" where
  "split_on d [] = [[]]"
| "split_on d (c # cs) =
     (if c = d then [] # split_on d cs
      else (case split_on d cs of
              [] \<Rightarrow> [[c]]
            | x # xs \<Rightarrow> (c # x) # xs))"

text \<open>\<open>xs.join(sep)\<close>.\<close>

fun join :: "string \<Rightarrow> string list \<Rightarrow> string" where
  "join sep [] = []"
| "join sep [x] = x"
| "join sep (x # y # ys) = x @ sep @ join sep (y # ys)"

text \<open>
  \<open>[...new Set(xs)]\<close>: the elements are added one by one, an element already in the
  set is not added again, and the spread reads the set in insertion order.
\<close>

definition set_add :: "'a list \<Rightarrow> 'a \<Rightarrow> 'a list" where
  "set_add acc x = (if x \<in> set acc then acc else acc @ [x])"

definition set_spread :: "'a list \<Rightarrow> 'a list" where
  "set_spread xs = foldl set_add [] xs"

text \<open>
  The replacement text of \<open>String.prototype.replace\<close> is a template
  (\<open>GetSubstitution\<close> of the language standard): \<open>$$\<close> stands for one dollar sign,
  \<open>$&\<close> for the matched text, \<open>$`\<close> for the text before the match and \<open>$'\<close> for the
  text after it. Both calls of \<open>replace\<close> in \<^verbatim>\<open>applyTags\<close> have no capture
  group (a string pattern, and \<open>/tags:\s*\[.*\]/\<close>), so \<open>$1\<close> to \<open>$99\<close> and \<open>$<\<close> stay
  as they are written, like every other character.
\<close>

fun get_substitution :: "string \<Rightarrow> string \<Rightarrow> string \<Rightarrow> string \<Rightarrow> string" where
  "get_substitution matched pre post [] = []"
| "get_substitution matched pre post [c] = [c]"
| "get_substitution matched pre post (c # d # r) =
     (if c = CHR ''$'' \<and> d = CHR ''$'' then CHR ''$'' # get_substitution matched pre post r
      else if c = CHR ''$'' \<and> d = CHR ''&'' then matched @ get_substitution matched pre post r
      else if c = CHR ''$'' \<and> d = CHR 0x60 then pre @ get_substitution matched pre post r
      else if c = CHR ''$'' \<and> d = sq then post @ get_substitution matched pre post r
      else c # get_substitution matched pre post (d # r))"

text \<open>
  \<open>s.replace(pat, template)\<close> with a string pattern: the first occurrence of \<open>pat\<close>
  (the one \<open>indexOf\<close> finds) is replaced, and \<open>s\<close> is returned as it is when there is
  none. \<open>find_first\<close> returns the text before and after that occurrence.
\<close>

fun find_first :: "string \<Rightarrow> string \<Rightarrow> (string \<times> string) option" where
  "find_first pat [] = (if pat = [] then Some ([], []) else None)"
| "find_first pat (c # cs) =
     (if prefix pat (c # cs) then Some ([], drop (length pat) (c # cs))
      else map_option (\<lambda>(b, a). (c # b, a)) (find_first pat cs))"

definition replace_str :: "string \<Rightarrow> string \<Rightarrow> string \<Rightarrow> string" where
  "replace_str pat template s =
     (case find_first pat s of
        None \<Rightarrow> s
      | Some (b, a) \<Rightarrow> b @ get_substitution pat b a template @ a)"

section \<open>The regular expressions of \<open>main.ts\<close>\<close>

text \<open>
  Each expression is modelled by the backtracking search the language prescribes: start
  positions are tried from left to right, a greedy quantifier first tries to take one
  more character and falls back to the rest of the pattern, a lazy quantifier first
  tries the rest of the pattern and falls back to taking one more character.
\<close>

subsection \<open>\<open>/^---\n([\s\S]*?)\n---/\<close>\<close>

text \<open>
  \<open>lazy_body s\<close> matches \<open>([\s\S]*?)\n---\<close> at the head of \<open>s\<close> and returns the group.
\<close>

fun lazy_body :: "string \<Rightarrow> string option" where
  "lazy_body [] = None"
| "lazy_body (c # cs) =
     (if prefix ''\<newline>---'' (c # cs) then Some []
      else map_option ((#) c) (lazy_body cs))"

text \<open>
  Without the \<open>m\<close> flag \<open>^\<close> is the start of the text, so the only start position is 0.
  The result is \<open>(match[0], match[1])\<close>.
\<close>

definition frontmatter_match :: "string \<Rightarrow> (string \<times> string) option" where
  "frontmatter_match content =
     (if prefix ''---\<newline>'' content
      then map_option (\<lambda>b. (''---\<newline>'' @ b @ ''\<newline>---'', b)) (lazy_body (drop 4 content))
      else None)"

subsection \<open>\<open>/tags:\s*\[(.*)\]/\<close>\<close>

text \<open>
  \<open>greedy_dot s\<close> matches \<open>(.*)\]\<close> at the head of \<open>s\<close>: the group and the text after
  the bracket. \<open>greedy_space s\<close> matches \<open>\s*\[(.*)\]\<close>: the white space taken, the
  group and the text after the bracket.
\<close>

fun greedy_dot :: "string \<Rightarrow> (string \<times> string) option" where
  "greedy_dot [] = None"
| "greedy_dot (c # cs) =
     (case (if is_line_terminator c then None else greedy_dot cs) of
        Some (g, r) \<Rightarrow> Some (c # g, r)
      | None \<Rightarrow> if c = CHR '']'' then Some ([], cs) else None)"

fun greedy_space :: "string \<Rightarrow> (string \<times> string \<times> string) option" where
  "greedy_space [] = None"
| "greedy_space (c # cs) =
     (case (if is_space c then greedy_space cs else None) of
        Some (w, g, r) \<Rightarrow> Some (c # w, g, r)
      | None \<Rightarrow> if c = CHR ''['' then map_option (\<lambda>(g, r). ([], g, r)) (greedy_dot cs)
                else None)"

definition tags_at :: "string \<Rightarrow> (string \<times> string \<times> string) option" where
  "tags_at s = (if prefix ''tags:'' s then greedy_space (drop 5 s) else None)"

text \<open>
  The leftmost match in \<open>s\<close>: the text before it, \<open>match[0]\<close>, \<open>match[1]\<close> and the text
  after it.
\<close>

fun tags_exec :: "string \<Rightarrow> (string \<times> string \<times> string \<times> string) option" where
  "tags_exec [] = None"
| "tags_exec (c # cs) =
     (case tags_at (c # cs) of
        Some (w, g, r) \<Rightarrow> Some ([], ''tags:'' @ w @ ''['' @ g @ '']'', g, r)
      | None \<Rightarrow> map_option (\<lambda>(b, m, g, a). (c # b, m, g, a)) (tags_exec cs))"

text \<open>
  \<open>s.replace(/tags:\s*\[.*\]/, template)\<close>: the same pattern without the group, hence
  the same leftmost match; no \<open>g\<close> flag, so only that match is replaced.
\<close>

definition replace_tags :: "string \<Rightarrow> string \<Rightarrow> string" where
  "replace_tags template s =
     (case tags_exec s of
        None \<Rightarrow> s
      | Some (b, m, g, a) \<Rightarrow> b @ get_substitution m b a template @ a)"

section \<open>The frontmatter merger\<close>

text \<open>The template literal \<open>tags: [${ts.map(t => `"${t}"`).join(', ')}]\<close>.\<close>

definition quoted :: "string \<Rightarrow> string" where
  "quoted t = dq # t @ [dq]"

definition tags_field :: "string list \<Rightarrow> string" where
  "tags_field ts = ''tags: ['' @ join '', '' (map quoted ts) @ '']''"

text \<open>\<open>t.trim().replace(/['"]/g, '')\<close>: every quote character is deleted.\<close>

definition clean_tag :: "string \<Rightarrow> string" where
  "clean_tag t = filter (\<lambda>c. c \<noteq> sq \<and> c \<noteq> dq) (trim t)"

text \<open>
  The text computed by \<open>applyTags\<close> from the text it has read: the argument of
  \<open>vault.modify\<close> in each of the three branches.
\<close>

definition applyTags_text :: "string \<Rightarrow> string list \<Rightarrow> string" where
  "applyTags_text content tags =
     (case frontmatter_match content of
        Some (m0, m1) \<Rightarrow>
          (case tags_exec m1 of
             Some (b, m, g, a) \<Rightarrow>
               let current = map clean_tag (split_on CHR '','' g);
                   merged = set_spread (current @ tags);
                   newFrontmatter = replace_tags (tags_field merged) m1
               in replace_str m0 (''---\<newline>'' @ newFrontmatter @ ''\<newline>---'') content
           | None \<Rightarrow>
               let newFrontmatter = m1 @ ''\<newline>'' @ tags_field tags
               in replace_str m0 (''---\<newline>'' @ newFrontmatter @ ''\<newline>---'') content)
      | None \<Rightarrow> ''---\<newline>'' @ tags_field tags @ ''\<newline>---\<newline>\<newline>'' @ content)"

section \<open>The plugin, its host and the remote model\<close>

text \<open>
  What the plugin reads and changes outside itself is a \<open>world\<close>: the notes of the
  vault by path, the paths \<open>getMarkdownFiles\<close> enumerates, the active view (absent, or
  with or without a file), the notices shown, the errors written to the console, the
  requests sent to the remote model and the dialogs opened. The remote model and
  \<open>JSON.parse\<close> are not code of the plugin: they are parameters (\<open>env\<close>). The reply to a
  request may depend on how many requests came before it. \<open>JSON.parse\<close> throws (\<open>None\<close>)
  or returns a value, which the source takes to be a \<open>string[]\<close> by a cast.
\<close>

datatype error = ApiError string | SyntaxError | TypeError | NotFound

record settings =
  apiKey :: string
  model :: string
  maxTags :: int
  autoApply :: bool
  language :: string

definition DEFAULT_SETTINGS :: settings where
  "DEFAULT_SETTINGS =
     \<lparr>apiKey = [], model = ''claude-haiku-4-5-20251001'', maxTags = 5,
      autoApply = False, language = ''auto''\<rparr>"

text \<open>The object \<open>loadData\<close> returns: a field may be missing.\<close>

record saved =
  saved_apiKey :: "string option"
  saved_model :: "string option"
  saved_maxTags :: "int option"
  saved_autoApply :: "bool option"
  saved_language :: "string option"

record plugin =
  settings :: settings
  client :: "string option"

text \<open>
  The interpolated parts of the prompt, the model and the token budget of a request,
  and the key of the client handle that sends it.
\<close>

record request =
  req_key :: string
  req_model :: string
  req_max_tokens :: nat
  req_maxTags :: int
  req_langHint :: string
  req_note :: string

datatype block = TextBlock string | OtherBlock

datatype notice =
    NoApiKey | NoActiveNote | Analyzing | NoTagsSuggested | ErrorNotice error
  | TaggingNotes nat | Progress nat nat | DoneTagged nat | AppliedTags nat

record modal =
  modal_tags :: "string list"
  modal_file :: string
  modal_selected :: "string list"

record world =
  vault :: "string \<rightharpoonup> string"
  markdown_files :: "string list"
  active_view :: "string option option"
  notices :: "notice list"
  console :: "(string \<times> error) list"
  requests :: "request list"
  modals :: "modal list"

record env =
  remote :: "nat \<Rightarrow> request \<Rightarrow> error + block list"
  json_parse :: "string \<Rightarrow> string list option"

definition notify :: "notice \<Rightarrow> world \<Rightarrow> world" where
  "notify n w = w\<lparr>notices := notices w @ [n]\<rparr>"

definition vault_read :: "world \<Rightarrow> string \<Rightarrow> error + string" where
  "vault_read w file = (case vault w file of None \<Rightarrow> Inl NotFound | Some c \<Rightarrow> Inr c)"

subsection \<open>Settings and the client handle\<close>

definition loadSettings :: "saved \<Rightarrow> settings" where
  "loadSettings d =
     \<lparr>apiKey = (case saved_apiKey d of None \<Rightarrow> apiKey DEFAULT_SETTINGS | Some v \<Rightarrow> v),
      model = (case saved_model d of None \<Rightarrow> model DEFAULT_SETTINGS | Some v \<Rightarrow> v),
      maxTags = (case saved_maxTags d of None \<Rightarrow> maxTags DEFAULT_SETTINGS | Some v \<Rightarrow> v),
      autoApply = (case saved_autoApply d of None \<Rightarrow> autoApply DEFAULT_SETTINGS | Some v \<Rightarrow> v),
      language = (case saved_language d of None \<Rightarrow> language DEFAULT_SETTINGS | Some v \<Rightarrow> v)\<rparr>"

text \<open>\<open>if (this.settings.apiKey)\<close>: the empty string is the only falsy string.\<close>

definition initClient :: "plugin \<Rightarrow> plugin" where
  "initClient p =
     (if apiKey (settings p) \<noteq> [] then p\<lparr>client := Some (apiKey (settings p))\<rparr> else p)"

definition onload :: "saved \<Rightarrow> plugin" where
  "onload d = initClient \<lparr>settings = loadSettings d, client = None\<rparr>"

definition saveSettings :: "plugin \<Rightarrow> plugin" where
  "saveSettings p = initClient p"

text \<open>The \<open>onChange\<close> handlers of the settings tab.\<close>

datatype change =
    SetApiKey string | SetModel string | SetMaxTags int | SetLanguage string
  | SetAutoApply bool

fun onChange :: "change \<Rightarrow> plugin \<Rightarrow> plugin" where
  "onChange (SetApiKey v) p = saveSettings (p\<lparr>settings := (settings p)\<lparr>apiKey := v\<rparr>\<rparr>)"
| "onChange (SetModel v) p = saveSettings (p\<lparr>settings := (settings p)\<lparr>model := v\<rparr>\<rparr>)"
| "onChange (SetMaxTags v) p = saveSettings (p\<lparr>settings := (settings p)\<lparr>maxTags := v\<rparr>\<rparr>)"
| "onChange (SetLanguage v) p = saveSettings (p\<lparr>settings := (settings p)\<lparr>language := v\<rparr>\<rparr>)"
| "onChange (SetAutoApply v) p = saveSettings (p\<lparr>settings := (settings p)\<lparr>autoApply := v\<rparr>\<rparr>)"

text \<open>The plugin states a session can be in: loaded, then changed through the settings tab.\<close>

inductive reachable :: "plugin \<Rightarrow> bool" where
  loaded: "reachable (onload d)"
| changed: "reachable p \<Longrightarrow> reachable (onChange c p)"

subsection \<open>\<open>suggestTags\<close>\<close>

text \<open>\<open>/\[.*\]/s\<close>: with the \<open>s\<close> flag \<open>.\<close> matches every character. The result is \<open>match[0]\<close>.\<close>

fun greedy_any :: "string \<Rightarrow> string option" where
  "greedy_any [] = None"
| "greedy_any (c # cs) =
     (case greedy_any cs of
        Some m \<Rightarrow> Some (c # m)
      | None \<Rightarrow> if c = CHR '']'' then Some [c] else None)"

fun array_match :: "string \<Rightarrow> string option" where
  "array_match [] = None"
| "array_match (c # cs) =
     (case (if c = CHR ''['' then greedy_any cs else None) of
        Some m \<Rightarrow> Some (c # m)
      | None \<Rightarrow> array_match cs)"

text \<open>
  \<open>response.content[0].type === 'text' ? response.content[0].text : ''\<close>; reading
  \<open>type\<close> of a missing first block throws.
\<close>

fun reply_text :: "block list \<Rightarrow> error + string" where
  "reply_text [] = Inl TypeError"
| "reply_text (TextBlock t # bs) = Inr t"
| "reply_text (OtherBlock # bs) = Inr []"

text \<open>The last three statements of \<open>suggestTags\<close>, from the reply text on.\<close>

definition extract_tags :: "(string \<Rightarrow> string list option) \<Rightarrow> string \<Rightarrow> error + string list" where
  "extract_tags parse text =
     (case array_match text of
        None \<Rightarrow> Inr []
      | Some m \<Rightarrow> (case parse m of None \<Rightarrow> Inl SyntaxError | Some ts \<Rightarrow> Inr ts))"

definition langHint :: "string \<Rightarrow> string" where
  "langHint l =
     (if l = ''ko'' then ''Respond with Korean tags.''
      else if l = ''en'' then ''Respond with English tags.''
      else ''Detect the language of the content and use the same language for tags.'')"

text \<open>The argument of \<open>messages.create\<close>; \<open>content.slice(0, 3000)\<close> is the note it carries.\<close>

definition build_request :: "string \<Rightarrow> settings \<Rightarrow> string \<Rightarrow> request" where
  "build_request key s content =
     (let truncated = take 3000 content
      in \<lparr>req_key = key, req_model = model s, req_max_tokens = 200, req_maxTags = maxTags s,
          req_langHint = langHint (language s), req_note = truncated\<rparr>)"

definition suggestTags :: "env \<Rightarrow> plugin \<Rightarrow> string \<Rightarrow> world \<Rightarrow> (error + string list) \<times> world" where
  "suggestTags ev p content w =
     (case client p of
        None \<Rightarrow> (Inr [], w)
      | Some key \<Rightarrow>
          let req = build_request key (settings p) content;
              w' = w\<lparr>requests := requests w @ [req]\<rparr>
          in (case remote ev (length (requests w)) req of
                Inl e \<Rightarrow> (Inl e, w')
              | Inr blocks \<Rightarrow>
                  (case reply_text blocks of
                     Inl e \<Rightarrow> (Inl e, w')
                   | Inr text \<Rightarrow> (extract_tags (json_parse ev) text, w'))))"

subsection \<open>\<open>applyTags\<close>\<close>

definition applyTags :: "string \<Rightarrow> string list \<Rightarrow> world \<Rightarrow> error + world" where
  "applyTags file tags w =
     (case vault_read w file of
        Inl e \<Rightarrow> Inl e
      | Inr content \<Rightarrow> Inr (w\<lparr>vault := (vault w)(file \<mapsto> applyTags_text content tags)\<rparr>))"

subsection \<open>\<open>tagCurrentNote\<close> and the dialog\<close>

definition tagCurrentNote :: "env \<Rightarrow> plugin \<Rightarrow> world \<Rightarrow> world" where
  "tagCurrentNote ev p w =
     (case client p of
        None \<Rightarrow> notify NoApiKey w
      | Some key \<Rightarrow>
          (case active_view w of
             None \<Rightarrow> notify NoActiveNote w
           | Some None \<Rightarrow> w
           | Some (Some file) \<Rightarrow>
               let w1 = notify Analyzing w
               in (case vault_read w1 file of
                     Inl e \<Rightarrow> notify (ErrorNotice e) w1
                   | Inr content \<Rightarrow>
                       (case suggestTags ev p content w1 of
                          (Inl e, w2) \<Rightarrow> notify (ErrorNotice e) w2
                        | (Inr tags, w2) \<Rightarrow>
                            if length tags = 0 then notify NoTagsSuggested w2
                            else w2\<lparr>modals := modals w2 @
                                   [\<lparr>modal_tags = tags, modal_file = file,
                                     modal_selected = set_spread tags\<rparr>]\<rparr>))))"

text \<open>A click on a tag button, and a click on the apply button.\<close>

definition toggle :: "string \<Rightarrow> modal \<Rightarrow> modal" where
  "toggle tag m =
     (if tag \<in> set (modal_selected m)
      then m\<lparr>modal_selected := removeAll tag (modal_selected m)\<rparr>
      else m\<lparr>modal_selected := modal_selected m @ [tag]\<rparr>)"

definition modal_apply :: "modal \<Rightarrow> world \<Rightarrow> error + world" where
  "modal_apply m w =
     (case applyTags (modal_file m) (modal_selected m) w of
        Inl e \<Rightarrow> Inl e
      | Inr w' \<Rightarrow> Inr (notify (AppliedTags (length (modal_selected m))) w'))"

subsection \<open>\<open>tagAllNotes\<close>\<close>

text \<open>
  The body of the \<open>try\<close> block up to the count: it throws, leaves by \<open>continue\<close>, or
  completes. What it did before throwing stays done.
\<close>

datatype outcome = Skipped | Completed

definition note_pipeline :: "env \<Rightarrow> plugin \<Rightarrow> string \<Rightarrow> world \<Rightarrow> (error + outcome) \<times> world" where
  "note_pipeline ev p file w =
     (case vault_read w file of
        Inl e \<Rightarrow> (Inl e, w)
      | Inr content \<Rightarrow>
          if length (trim content) < 50 then (Inr Skipped, w)
          else (case suggestTags ev p content w of
                  (Inl e, w1) \<Rightarrow> (Inl e, w1)
                | (Inr tags, w1) \<Rightarrow>
                    if length tags > 0 \<and> autoApply (settings p)
                    then (case applyTags file tags w1 of
                            Inl e \<Rightarrow> (Inl e, w1)
                          | Inr w2 \<Rightarrow> (Inr Completed, w2))
                    else (Inr Completed, w1)))"

text \<open>One turn of the loop: the \<open>try\<close> block with its \<open>catch\<close>.\<close>

definition tag_note :: "env \<Rightarrow> plugin \<Rightarrow> nat \<Rightarrow> world \<times> nat \<Rightarrow> string \<Rightarrow> world \<times> nat" where
  "tag_note ev p nfiles s file =
     (case note_pipeline ev p file (fst s) of
        (Inl e, w1) \<Rightarrow> (w1\<lparr>console := console w1 @ [(file, e)]\<rparr>, snd s)
      | (Inr Skipped, w1) \<Rightarrow> (w1, snd s)
      | (Inr Completed, w1) \<Rightarrow>
          let processed = snd s + 1
          in (if processed mod 10 = 0 then notify (Progress processed nfiles) w1 else w1,
              processed))"

definition tag_loop :: "env \<Rightarrow> plugin \<Rightarrow> nat \<Rightarrow> string list \<Rightarrow> world \<times> nat \<Rightarrow> world \<times> nat" where
  "tag_loop ev p nfiles files s = foldl (tag_note ev p nfiles) s files"

definition tagAllNotes :: "env \<Rightarrow> plugin \<Rightarrow> world \<Rightarrow> world" where
  "tagAllNotes ev p w =
     (case client p of
        None \<Rightarrow> notify NoApiKey w
      | Some key \<Rightarrow>
          let files = markdown_files w;
              w1 = notify (TaggingNotes (length files)) w;
              s = tag_loop ev p (length files) files (w1, 0)
          in notify (DoneTagged (snd s)) (fst s))"

section \<open>Properties stated in the specification\<close>

text \<open>
  The specification's reading of a metadata header: the text starts with a delimiter
  line, and a later line is a delimiter line too.
\<close>

definition delimiter_header :: "string \<Rightarrow> bool" where
  "delimiter_header content \<longleftrightarrow>
     (case split_on nl content of
        [] \<Rightarrow> False
      | l # ls \<Rightarrow> l = ''---'' \<and> ''---'' \<in> set ls)"


text \<open>The specification's bound on a suggestion: at most \<open>maxTags\<close> tags.\<close>

definition within_maxTags :: "plugin \<Rightarrow> error + string list \<Rightarrow> bool" where
  "within_maxTags p r =
     (case r of Inl e \<Rightarrow> True | Inr ts \<Rightarrow> int (length ts) \<le> maxTags (settings p))"


text \<open>The loop of \<open>tagAllNotes\<close> seen note by note: how the pipeline of each note ended.\<close>

fun pipeline_trace ::
  "env \<Rightarrow> plugin \<Rightarrow> nat \<Rightarrow> string list \<Rightarrow> world \<times> nat \<Rightarrow> (error + outcome) list" where
  "pipeline_trace ev p nfiles [] s = []"
| "pipeline_trace ev p nfiles (f # fs) s =
     fst (note_pipeline ev p f (fst s)) # pipeline_trace ev p nfiles fs (tag_note ev p nfiles s f)"




section \<open>Example inputs\<close>

definition empty_world :: world where
  "empty_world =
     \<lparr>vault = Map.empty, markdown_files = [], active_view = None, notices = [],
      console = [], requests = [], modals = []\<rparr>"

definition long_note :: string where
  "long_note = ''Notes on the quarterly planning meeting and the items that came out of it.''"

definition one_note_world :: world where
  "one_note_world =
     empty_world\<lparr>vault := [''a.md'' \<mapsto> long_note], markdown_files := [''a.md''],
                 active_view := Some (Some ''a.md'')\<rparr>"


text \<open>
  A remote model that answers every request with an array of six tags; \<open>JSON.parse\<close>
  is given on that one text.
\<close>

definition six_tags :: "string list" where
  "six_tags = [''a'', ''b'', ''c'', ''d'', ''e'', ''f'']"

definition six_reply :: string where
  "six_reply = ''['' @ join '','' (map quoted six_tags) @ '']''"

definition env_six :: env where
  "env_six =
     \<lparr>remote = (\<lambda>n r. Inr [TextBlock six_reply]),
      json_parse = (\<lambda>s. if s = six_reply then Some six_tags else None)\<rparr>"

text \<open>A remote model whose reply holds no array.\<close>

definition env_prose :: env where
  "env_prose =
     \<lparr>remote = (\<lambda>n r. Inr [TextBlock ''I cannot tag this note.'']),
      json_parse = (\<lambda>s. None)\<rparr>"


text \<open>
  A vault of three notes, and a remote model that is out of reach for the first request,
  answers the second with an array that does not parse and the third without an array.
\<close>

definition three_note_world :: world where
  "three_note_world =
     empty_world\<lparr>vault := [''a.md'' \<mapsto> long_note, ''b.md'' \<mapsto> long_note, ''c.md'' \<mapsto> long_note],
                 markdown_files := [''a.md'', ''b.md'', ''c.md'']\<rparr>"

definition env_flaky :: env where
  "env_flaky =
     \<lparr>remote = (\<lambda>n r. if n = 0 then Inl (ApiError ''offline'')
                      else if n = 1 then Inr [TextBlock ''Tags: [a, b]'']
                      else Inr [TextBlock ''I cannot tag this note.'']),
      json_parse = (\<lambda>s. None)\<rparr>"

definition keyed_plugin :: plugin where
  "keyed_plugin = \<lparr>settings = DEFAULT_SETTINGS\<lparr>apiKey := ''k''\<rparr>, client = Some ''k''\<rparr>"

text \<open>The settings were saved with a key; the user then empties the key field.\<close>

definition saved_with_key :: saved where
  "saved_with_key =
     \<lparr>saved_apiKey = Some ''k'', saved_model = None, saved_maxTags = None,
      saved_autoApply = None, saved_language = None\<rparr>"

definition key_removed :: plugin where
  "key_removed = onChange (SetApiKey []) (onload saved_with_key)"



section \<open>The reply of the remote model\<close>






lemma six_reply_match: "array_match six_reply = Some six_reply"
  by (simp add: six_reply_def six_tags_def quoted_def)

lemma prose_no_array: "array_match ''I cannot tag this note.'' = None"
  by simp




text \<open>A reply with no content block at all: reading the first block throws.\<close>

lemma suggestTags_no_block:
  "client p = Some key \<Longrightarrow>
   remote ev (length (requests w)) (build_request key (settings p) content) = Inr [] \<Longrightarrow>
   fst (suggestTags ev p content w) = Inl TypeError"
  by (simp add: suggestTags_def Let_def)

text \<open>
  Claim C7, as stated: the sequence \<open>suggestTags\<close> returns has at most \<open>maxTags\<close>
  elements. It fails: \<open>maxTags\<close> is 5 and the reply holds six tags, all of them returned.
\<close>

theorem six_tags_counterexample:
  "\<not> within_maxTags keyed_plugin (fst (suggestTags env_six keyed_plugin long_note empty_world))"
  by (simp add: within_maxTags_def suggestTags_def env_six_def keyed_plugin_def six_reply_def
      six_tags_def quoted_def extract_tags_def DEFAULT_SETTINGS_def Let_def)

text \<open>
  Claim C7, amended: \<open>maxTags\<close> goes into the request and nowhere else; when the first
  block of the reply is text holding an array that parses, \<open>suggestTags\<close> returns the
  parsed sequence as it is, whatever its length.
\<close>

theorem suggestTags_returns_parsed:
  "client p = Some key \<Longrightarrow>
   remote ev (length (requests w)) (build_request key (settings p) content)
     = Inr (TextBlock text # bs) \<Longrightarrow>
   array_match text = Some m \<Longrightarrow> json_parse ev m = Some ts \<Longrightarrow>
   fst (suggestTags ev p content w) = Inr ts \<and>
   req_maxTags (build_request key (settings p) content) = maxTags (settings p)"
  by (simp add: suggestTags_def extract_tags_def build_request_def Let_def)

theorem suggestTags_returns_parsed_witness:
  "fst (suggestTags env_six keyed_plugin long_note empty_world) = Inr six_tags \<and>
   length six_tags = 6 \<and> maxTags (settings keyed_plugin) = 5"
proof -
  have c: "client keyed_plugin = Some ''k''" by (simp add: keyed_plugin_def)
  have r: "remote env_six (length (requests empty_world))
             (build_request ''k'' (settings keyed_plugin) long_note) = Inr (TextBlock six_reply # [])"
    by (simp add: env_six_def)
  have j: "json_parse env_six six_reply = Some six_tags" by (simp add: env_six_def)
  show ?thesis
    using suggestTags_returns_parsed [OF c r six_reply_match j]
    by (simp add: six_tags_def keyed_plugin_def DEFAULT_SETTINGS_def)
qed

text \<open>
  Claim C10. Without a client handle \<open>suggestTags\<close> returns the empty sequence, raises
  nothing and leaves the world as it is: no request is sent.
\<close>

theorem suggestTags_no_client:
  "client p = None \<Longrightarrow> suggestTags ev p content w = (Inr [], w)"
  by (simp add: suggestTags_def)

theorem suggestTags_no_client_witness:
  "client \<lparr>settings = DEFAULT_SETTINGS, client = None\<rparr> = None \<and>
   suggestTags env_six \<lparr>settings = DEFAULT_SETTINGS, client = None\<rparr> long_note empty_world
     = (Inr [], empty_world)"
proof -
  have h: "client \<lparr>settings = DEFAULT_SETTINGS, client = None\<rparr> = None" by simp
  show ?thesis using h suggestTags_no_client [OF h] by simp
qed

section \<open>The batch driver and the client handle\<close>

lemma suggestTags_vault: "suggestTags ev p content w = (r, w') \<Longrightarrow> vault w' = vault w"
  by (auto simp: suggestTags_def Let_def split: option.splits sum.splits)

lemma trace_length: "length (pipeline_trace ev p n files s) = length files"
  by (induction files arbitrary: s) auto

lemma tag_note_count:
  "snd (tag_note ev p n s f) =
     snd s + (if fst (note_pipeline ev p f (fst s)) = Inr Completed then 1 else 0)"
  by (auto simp: tag_note_def Let_def split: prod.splits sum.splits outcome.splits)

lemma tag_loop_count:
  "snd (tag_loop ev p n files s) =
     snd s + length (filter (\<lambda>r. r = Inr Completed) (pipeline_trace ev p n files s))"
proof (induction files arbitrary: s)
  case Nil
  then show ?case by (simp add: tag_loop_def)
next
  case (Cons f fs)
  have "tag_loop ev p n (f # fs) s = tag_loop ev p n fs (tag_note ev p n s f)"
    by (simp add: tag_loop_def)
  then show ?case using Cons.IH [of "tag_note ev p n s f"] by (simp add: tag_note_count)
qed

lemma long_note_not_short: "\<not> length (trim long_note) < 50"
  by (simp add: long_note_def trim_def is_space_def)

text \<open>
  Claim C8. In \<open>tagAllNotes\<close> the loop goes on with the next note whatever the turn for a
  note did. A note that cannot be read, and a note for which \<open>suggestTags\<close> raises, is
  logged to the console with its error and leaves the count as it was; \<open>suggestTags\<close>
  raises when the request fails and when the array of the reply does not parse. A short
  note changes nothing. A note for which \<open>suggestTags\<close> returns adds one to the count,
  and the note is written only when the suggestion is not empty and \<open>autoApply\<close> is set:
  an empty suggestion is counted and nothing is written. At the end the count is the
  number of notes whose turn completed.
\<close>

theorem tagAllNotes_failure_isolated:
  "tag_loop ev p n (f # fs) s = tag_loop ev p n fs (tag_note ev p n s f) \<and>
   (vault w f = None \<longrightarrow>
      tag_note ev p n (w, k) f = (w\<lparr>console := console w @ [(f, NotFound)]\<rparr>, k)) \<and>
   (vault w f = Some content \<and> length (trim content) < 50 \<longrightarrow>
      tag_note ev p n (w, k) f = (w, k)) \<and>
   (vault w f = Some content \<and> \<not> length (trim content) < 50 \<and>
    suggestTags ev p content w = (Inl e, w') \<longrightarrow>
      tag_note ev p n (w, k) f = (w'\<lparr>console := console w' @ [(f, e)]\<rparr>, k)) \<and>
   (client p = Some key \<and>
    remote ev (length (requests w)) (build_request key (settings p) content) = Inl e \<longrightarrow>
      suggestTags ev p content w
        = (Inl e, w\<lparr>requests := requests w @ [build_request key (settings p) content]\<rparr>)) \<and>
   (client p = Some key \<and>
    remote ev (length (requests w)) (build_request key (settings p) content)
      = Inr (TextBlock reply # bs) \<and>
    array_match reply = Some m \<and> json_parse ev m = None \<longrightarrow>
      suggestTags ev p content w
        = (Inl SyntaxError, w\<lparr>requests := requests w @ [build_request key (settings p) content]\<rparr>)) \<and>
   (vault w f = Some content \<and> \<not> length (trim content) < 50 \<and>
    suggestTags ev p content w = (Inr tags, w') \<longrightarrow>
      tag_note ev p n (w, k) f =
        (let w2 = (if length tags > 0 \<and> autoApply (settings p)
                   then w'\<lparr>vault := (vault w')(f \<mapsto> applyTags_text content tags)\<rparr> else w')
         in (if Suc k mod 10 = 0 then notify (Progress (Suc k) n) w2 else w2, Suc k))) \<and>
   (vault w f = Some content \<and> \<not> length (trim content) < 50 \<and>
    suggestTags ev p content w = (Inr [], w') \<longrightarrow>
      tag_note ev p n (w, k) f
        = (if Suc k mod 10 = 0 then notify (Progress (Suc k) n) w' else w', Suc k) \<and>
      vault w' = vault w) \<and>
   snd (tag_loop ev p n files s') =
     snd s' + length (filter (\<lambda>r. r = Inr Completed) (pipeline_trace ev p n files s')) \<and>
   length (pipeline_trace ev p n files s') = length files \<and>
   (client p \<noteq> None \<longrightarrow>
      tagAllNotes ev p w =
        (let files = markdown_files w;
             s = tag_loop ev p (length files) files (notify (TaggingNotes (length files)) w, 0)
         in notify (DoneTagged (snd s)) (fst s)))"
proof (intro conjI impI)
  show "tag_loop ev p n (f # fs) s = tag_loop ev p n fs (tag_note ev p n s f)"
    by (simp add: tag_loop_def)
next
  assume "vault w f = None"
  then show "tag_note ev p n (w, k) f = (w\<lparr>console := console w @ [(f, NotFound)]\<rparr>, k)"
    by (simp add: tag_note_def note_pipeline_def vault_read_def)
next
  assume "vault w f = Some content \<and> length (trim content) < 50"
  then show "tag_note ev p n (w, k) f = (w, k)"
    by (simp add: tag_note_def note_pipeline_def vault_read_def)
next
  assume "vault w f = Some content \<and> \<not> length (trim content) < 50 \<and>
    suggestTags ev p content w = (Inl e, w')"
  then show "tag_note ev p n (w, k) f = (w'\<lparr>console := console w' @ [(f, e)]\<rparr>, k)"
    by (simp add: tag_note_def note_pipeline_def vault_read_def)
next
  assume "client p = Some key \<and>
    remote ev (length (requests w)) (build_request key (settings p) content) = Inl e"
  then show "suggestTags ev p content w
        = (Inl e, w\<lparr>requests := requests w @ [build_request key (settings p) content]\<rparr>)"
    by (simp add: suggestTags_def Let_def)
next
  assume "client p = Some key \<and>
    remote ev (length (requests w)) (build_request key (settings p) content)
      = Inr (TextBlock reply # bs) \<and>
    array_match reply = Some m \<and> json_parse ev m = None"
  then show "suggestTags ev p content w
        = (Inl SyntaxError, w\<lparr>requests := requests w @ [build_request key (settings p) content]\<rparr>)"
    by (simp add: suggestTags_def Let_def extract_tags_def)
next
  assume a: "vault w f = Some content \<and> \<not> length (trim content) < 50 \<and>
    suggestTags ev p content w = (Inr tags, w')"
  then have v: "vault w' = vault w" using suggestTags_vault by blast
  with a have r: "vault_read w' f = Inr content" by (simp add: vault_read_def)
  from a r show "tag_note ev p n (w, k) f =
        (let w2 = (if length tags > 0 \<and> autoApply (settings p)
                   then w'\<lparr>vault := (vault w')(f \<mapsto> applyTags_text content tags)\<rparr> else w')
         in (if Suc k mod 10 = 0 then notify (Progress (Suc k) n) w2 else w2, Suc k))"
    by (simp add: tag_note_def note_pipeline_def vault_read_def applyTags_def Let_def)
next
  assume a: "vault w f = Some content \<and> \<not> length (trim content) < 50 \<and>
    suggestTags ev p content w = (Inr [], w')"
  then show "tag_note ev p n (w, k) f
        = (if Suc k mod 10 = 0 then notify (Progress (Suc k) n) w' else w', Suc k)"
    by (simp add: tag_note_def note_pipeline_def vault_read_def Let_def)
  from a show "vault w' = vault w" using suggestTags_vault by blast
next
  show "snd (tag_loop ev p n files s') =
     snd s' + length (filter (\<lambda>r. r = Inr Completed) (pipeline_trace ev p n files s'))"
    by (rule tag_loop_count)
next
  show "length (pipeline_trace ev p n files s') = length files" by (rule trace_length)
next
  assume "client p \<noteq> None"
  then show "tagAllNotes ev p w =
        (let files = markdown_files w;
             s = tag_loop ev p (length files) files (notify (TaggingNotes (length files)) w, 0)
         in notify (DoneTagged (snd s)) (fst s))"
    by (auto simp: tagAllNotes_def)
qed


theorem tagAllNotes_failure_isolated_witness:
  "tag_loop env_flaky keyed_plugin 3 [''a.md'', ''b.md'', ''c.md''] (three_note_world, 0)
     = (three_note_world
          \<lparr>requests := replicate 3 (build_request ''k'' (settings keyed_plugin) long_note),
           console := [(''a.md'', ApiError ''offline''), (''b.md'', SyntaxError)]\<rparr>, 1) \<and>
   vault (fst (tag_loop env_flaky keyed_plugin 3 [''a.md'', ''b.md'', ''c.md''] (three_note_world, 0)))
     = vault three_note_world"
proof -
  let ?ev = env_flaky and ?p = keyed_plugin
  let ?r = "build_request ''k'' (settings keyed_plugin) long_note"
  let ?w0 = three_note_world
  let ?wa = "?w0\<lparr>requests := requests ?w0 @ [?r]\<rparr>"
  let ?w1 = "?wa\<lparr>console := console ?wa @ [(''a.md'', ApiError ''offline'')]\<rparr>"
  let ?wb = "?w1\<lparr>requests := requests ?w1 @ [?r]\<rparr>"
  let ?w2 = "?wb\<lparr>console := console ?wb @ [(''b.md'', SyntaxError)]\<rparr>"
  let ?w3 = "?w2\<lparr>requests := requests ?w2 @ [?r]\<rparr>"
  have c: "client ?p = Some ''k''" by (simp add: keyed_plugin_def)
  have q0: "requests ?w0 = []" and c0: "console ?w0 = []"
    by (simp_all add: three_note_world_def empty_world_def)
  have v: "vault ?w0 ''a.md'' = Some long_note" "vault ?w0 ''b.md'' = Some long_note"
    "vault ?w0 ''c.md'' = Some long_note"
    by (simp_all add: three_note_world_def empty_world_def)
  note l = long_note_not_short
  \<comment> \<open>the first note: the request fails\<close>
  have ra: "remote ?ev (length (requests ?w0)) ?r = Inl (ApiError ''offline'')"
    by (simp add: env_flaky_def q0)
  have sa: "suggestTags ?ev ?p long_note ?w0 = (Inl (ApiError ''offline''), ?wa)"
    using tagAllNotes_failure_isolated [where ev = ?ev and p = ?p and w = ?w0 and key = "''k''"
        and content = long_note and e = "ApiError ''offline''"] c ra
    by simp
  have ta: "tag_note ?ev ?p 3 (?w0, 0) ''a.md'' = (?w1, 0)"
    using tagAllNotes_failure_isolated [where ev = ?ev and p = ?p and w = ?w0 and f = "''a.md''"
        and content = long_note and e = "ApiError ''offline''" and w' = ?wa and k = 0 and n = 3]
      v(1) l sa
    by simp
  \<comment> \<open>the second note: the reply does not parse\<close>
  have rb: "remote ?ev (length (requests ?w1)) ?r = Inr (TextBlock ''Tags: [a, b]'' # [])"
    by (simp add: env_flaky_def q0)
  have mb: "array_match ''Tags: [a, b]'' = Some ''[a, b]''" by simp
  have jb: "json_parse ?ev ''[a, b]'' = None" by (simp add: env_flaky_def)
  have sb: "suggestTags ?ev ?p long_note ?w1 = (Inl SyntaxError, ?wb)"
    using tagAllNotes_failure_isolated [where ev = ?ev and p = ?p and w = ?w1 and key = "''k''"
        and content = long_note and reply = "''Tags: [a, b]''" and bs = "[]" and m = "''[a, b]''"]
      c rb mb jb
    by simp
  have tb: "tag_note ?ev ?p 3 (?w1, 0) ''b.md'' = (?w2, 0)"
    using tagAllNotes_failure_isolated [where ev = ?ev and p = ?p and w = ?w1 and f = "''b.md''"
        and content = long_note and e = SyntaxError and w' = ?wb and k = 0 and n = 3]
      v(2) l sb
    by simp
  \<comment> \<open>the third note: no array in the reply\<close>
  have sc: "suggestTags ?ev ?p long_note ?w2 = (Inr [], ?w3)"
    by (simp add: suggestTags_def Let_def keyed_plugin_def env_flaky_def q0 extract_tags_def)
  have tc: "tag_note ?ev ?p 3 (?w2, 0) ''c.md'' = (?w3, 1)"
    using tagAllNotes_failure_isolated [where ev = ?ev and p = ?p and w = ?w2 and f = "''c.md''"
        and content = long_note and w' = ?w3 and k = 0 and n = 3]
      v(3) l sc
    by simp
  have step: "tag_loop ?ev ?p 3 (f # fs) s = tag_loop ?ev ?p 3 fs (tag_note ?ev ?p 3 s f)" for f fs s
    using tagAllNotes_failure_isolated [where ev = ?ev and p = ?p and n = 3 and f = f and fs = fs
        and s = s] by blast
  have "tag_loop ?ev ?p 3 [''a.md'', ''b.md'', ''c.md''] (?w0, 0) = (?w3, 1)"
    by (simp only: step ta tb tc) (simp add: tag_loop_def)
  then show ?thesis by (simp add: q0 c0 v three_note_world_def empty_world_def numeral_3_eq_3)
qed

text \<open>
  Claim C9 says that with no API key set \<open>tagCurrentNote\<close> and \<open>tagAllNotes\<close> stop before
  any request. They test the client handle, and \<open>initClient\<close> leaves a handle in place
  when the key has become empty: after the user empties the key field no key is set,
  and both commands still send a request, with the handle made from the old key.
\<close>

theorem key_removed_still_requests:
  "reachable key_removed \<and> apiKey (settings key_removed) = [] \<and>
   requests (tagAllNotes env_six key_removed one_note_world) \<noteq> [] \<and>
   requests (tagCurrentNote env_six key_removed one_note_world) \<noteq> []"
proof (intro conjI)
  show "reachable key_removed"
    unfolding key_removed_def by (intro reachable.intros)
  have p: "key_removed = \<lparr>settings = DEFAULT_SETTINGS, client = Some ''k''\<rparr>"
    by (simp add: key_removed_def onload_def saveSettings_def initClient_def loadSettings_def
        saved_with_key_def DEFAULT_SETTINGS_def)
  show "apiKey (settings key_removed) = []" by (simp add: p DEFAULT_SETTINGS_def)
  show "requests (tagAllNotes env_six key_removed one_note_world) \<noteq> []"
    using long_note_not_short
    by (simp add: p tagAllNotes_def tag_loop_def tag_note_def note_pipeline_def vault_read_def
        one_note_world_def empty_world_def notify_def suggestTags_def Let_def env_six_def
        extract_tags_def six_reply_match DEFAULT_SETTINGS_def)
  show "requests (tagCurrentNote env_six key_removed one_note_world) \<noteq> []"
    by (simp add: p tagCurrentNote_def vault_read_def
        one_note_world_def empty_world_def notify_def suggestTags_def Let_def env_six_def
        extract_tags_def six_reply_match six_tags_def)
qed

text \<open>What holds of the two commands: without a client handle they only show a notice.\<close>

lemma commands_without_client:
  "client p = None \<Longrightarrow>
   tagAllNotes ev p w = notify NoApiKey w \<and> tagCurrentNote ev p w = notify NoApiKey w"
  by (simp add: tagAllNotes_def tagCurrentNote_def)

lemma reachable_key_has_client:
  "reachable p \<Longrightarrow> apiKey (settings p) \<noteq> [] \<Longrightarrow> client p = Some (apiKey (settings p))"
proof (induction rule: reachable.induct)
  case (loaded d)
  then show ?case by (auto simp: onload_def initClient_def split: if_splits)
next
  case (changed p c)
  then show ?case by (cases c) (auto simp: saveSettings_def initClient_def split: if_splits)
qed

section \<open>Recognising the header\<close>

lemma lazy_body_Some: "lazy_body s = Some b \<Longrightarrow> \<exists>r. s = b @ ''\<newline>---'' @ r"
proof (induction s arbitrary: b)
  case Nil
  then show ?case by simp
next
  case (Cons c cs)
  show ?case
  proof (cases "prefix ''\<newline>---'' (c # cs)")
    case True
    with Cons.prems have "b = []" by simp
    with True show ?thesis by (auto simp: prefix_def)
  next
    case False
    with Cons.prems obtain b' where b': "lazy_body cs = Some b'" "b = c # b'" by auto
    from Cons.IH [OF b'(1)] b'(2) show ?thesis by auto
  qed
qed

lemma lazy_body_found: "lazy_body (b @ ''\<newline>---'' @ r) \<noteq> None"
  by (induction b) auto

text \<open>
  What the header pattern asks of a text: the four characters of \<open>---\<close> and a line break
  at its start, and after them a line break followed by \<open>---\<close>. On a text that the
  pattern does not match \<open>applyTags\<close> puts the fresh header and an empty line in front.
\<close>

lemma frontmatter_match_iff:
  "frontmatter_match content \<noteq> None \<longleftrightarrow>
     (\<exists>body rest. content = ''---\<newline>'' @ body @ ''\<newline>---'' @ rest)"
proof
  assume "frontmatter_match content \<noteq> None"
  then obtain b where p: "prefix ''---\<newline>'' content" and b: "lazy_body (drop 4 content) = Some b"
    by (auto simp: frontmatter_match_def split: if_splits)
  from p obtain s where s: "content = ''---\<newline>'' @ s" by (auto simp: prefix_def)
  from b s lazy_body_Some [of s b] obtain r where "s = b @ ''\<newline>---'' @ r" by auto
  with s show "\<exists>body rest. content = ''---\<newline>'' @ body @ ''\<newline>---'' @ rest" by blast
next
  assume "\<exists>body rest. content = ''---\<newline>'' @ body @ ''\<newline>---'' @ rest"
  then obtain b r where "content = ''---\<newline>'' @ b @ ''\<newline>---'' @ r" by blast
  then show "frontmatter_match content \<noteq> None"
    using lazy_body_found [of b r] by (simp add: frontmatter_match_def)
qed

lemma applyTags_no_match:
  "frontmatter_match content = None \<Longrightarrow>
   applyTags_text content tags = ''---\<newline>'' @ tags_field tags @ ''\<newline>---\<newline>\<newline>'' @ content"
  by (simp add: applyTags_text_def)

text \<open>
  Claim C5 says that a header is recognised exactly when the text starts with a
  delimiter line and the body is followed by a delimiter line, and that a text whose
  opening delimiter has no closing delimiter line gets a fresh header in front. The
  pattern ties the opening \<open>---\<close> to its line break and leaves the closing \<open>---\<close> open to
  the right: in the text below no line after the first is the delimiter, the last line
  being \<open>---x\<close>, and the header is recognised and the tag field put into it.
\<close>

theorem unclosed_header_recognized:
  "\<not> delimiter_header ''---\<newline>a: 1\<newline>---x'' \<and>
   frontmatter_match ''---\<newline>a: 1\<newline>---x'' = Some (''---\<newline>a: 1\<newline>---'', ''a: 1'') \<and>
   applyTags_text ''---\<newline>a: 1\<newline>---x'' [] = ''---\<newline>a: 1\<newline>tags: []\<newline>---x'' \<and>
   applyTags_text ''---\<newline>a: 1\<newline>---x'' []
     \<noteq> ''---\<newline>tags: []\<newline>---\<newline>\<newline>'' @ ''---\<newline>a: 1\<newline>---x''"
  by (simp add: delimiter_header_def applyTags_text_def frontmatter_match_def tags_at_def
      replace_str_def tags_field_def)

text \<open>
  The other way round: a header with nothing between its two delimiter lines is not
  recognised, since the pattern asks for a line break before the closing \<open>---\<close> of its
  own; the note gets a second header.
\<close>

lemma empty_header_not_recognized:
  "delimiter_header ''---\<newline>---\<newline>body'' \<and>
   frontmatter_match ''---\<newline>---\<newline>body'' = None \<and>
   applyTags_text ''---\<newline>---\<newline>body'' []
     = ''---\<newline>tags: []\<newline>---\<newline>\<newline>---\<newline>---\<newline>body''"
  by (simp add: delimiter_header_def applyTags_text_def frontmatter_match_def tags_field_def)

text \<open>
  Claim C3 says that on every text with no metadata header \<open>applyTags\<close> puts a header
  with the tag field alone, and an empty line, in front of the text. The closing marker
  of the pattern being open to the right, the note below, which starts with a rule
  \<open>---\<close> and has a longer rule \<open>----\<close> further down, is not given a header in front: its
  first paragraph is taken for a header body and the tag field is written after it.
\<close>

theorem rule_line_closes_header:
  "\<not> delimiter_header ''---\<newline>Intro\<newline>----\<newline>More text'' \<and>
   applyTags_text ''---\<newline>Intro\<newline>----\<newline>More text'' [''x'']
     = ''---\<newline>Intro\<newline>tags: ['' @ [dq] @ ''x'' @ [dq] @ '']\<newline>----\<newline>More text'' \<and>
   applyTags_text ''---\<newline>Intro\<newline>----\<newline>More text'' [''x'']
     \<noteq> ''---\<newline>tags: ['' @ [dq] @ ''x'' @ [dq] @ '']\<newline>---\<newline>\<newline>'' @
       ''---\<newline>Intro\<newline>----\<newline>More text''"
  by (simp add: delimiter_header_def applyTags_text_def frontmatter_match_def tags_at_def
      replace_str_def tags_field_def quoted_def)

section \<open>Replacing, splitting and joining\<close>


lemma find_first_prefix: "find_first pat (pat @ r) = Some ([], r)"
proof (cases "pat @ r")
  case Nil
  then show ?thesis by simp
next
  case (Cons c cs)
  then have "prefix pat (c # cs)" by (metis prefixI)
  moreover have "drop (length pat) (c # cs) = r" by (simp add: Cons [symmetric])
  ultimately show ?thesis by (simp add: Cons)
qed







lemma frontmatter_match_Some:
  assumes "frontmatter_match c = Some (m0, m1)"
  obtains r where "c = m0 @ r" and "m0 = ''---\<newline>'' @ m1 @ ''\<newline>---''"
    and "lazy_body (m1 @ ''\<newline>---'' @ r) = Some m1"
proof -
  from assms have p: "prefix ''---\<newline>'' c" and b: "lazy_body (drop 4 c) = Some m1"
    and m: "m0 = ''---\<newline>'' @ m1 @ ''\<newline>---''"
    by (auto simp: frontmatter_match_def split: if_splits)
  from p obtain s where s: "c = ''---\<newline>'' @ s" by (auto simp: prefix_def)
  from b s have bs: "lazy_body s = Some m1" by simp
  from lazy_body_Some [OF bs] obtain r where r: "s = m1 @ ''\<newline>---'' @ r" by blast
  from s r m have "c = m0 @ r" by simp
  moreover from bs r have "lazy_body (m1 @ ''\<newline>---'' @ r) = Some m1" by simp
  ultimately show thesis using m that by blast
qed





lemma set_add_fresh: "distinct (acc @ xs) \<Longrightarrow> foldl set_add acc xs = acc @ xs"
  by (induction xs arbitrary: acc) (auto simp: set_add_def)



lemma set_spread_id: "distinct xs \<Longrightarrow> set_spread xs = xs"
  using set_add_fresh [of "[]" xs] by (simp add: set_spread_def)




lemma split_on_nonempty: "split_on d s \<noteq> []"
  by (induction s) (auto split: list.splits)











section \<open>The tag pattern and the header pattern on texts put together\<close>






















section \<open>What \<open>applyTags\<close> writes into a header\<close>











section \<open>Applying the same tags twice\<close>







lemmas eval_defs =
  applyTags_text_def frontmatter_match_def tags_at_def replace_tags_def replace_str_def
  tags_field_def clean_tag_def trim_def set_spread_def set_add_def quoted_def is_space_def
  is_line_terminator_def Let_def





text \<open>
  The empty tag list: the dialog passes it when every tag is deselected before the apply
  button is clicked. Run twice, it leaves the empty string as a tag.
\<close>

lemma deselect_all:
  "modal_selected
     (toggle ''x'' \<lparr>modal_tags = [''x''], modal_file = ''a.md'', modal_selected = set_spread [''x'']\<rparr>)
     = []"
  by (simp add: toggle_def set_spread_def set_add_def)

lemma empty_twice:
  "applyTags_text ''hello'' [] = ''---\<newline>tags: []\<newline>---\<newline>\<newline>hello'' \<and>
   applyTags_text (applyTags_text ''hello'' []) []
     = ''---\<newline>tags: ['' @ quoted [] @ '']\<newline>---\<newline>\<newline>hello''"
  by (simp add: eval_defs)

section \<open>Where the merge goes wrong\<close>

text \<open>
  Claim C1 says that the tag field becomes the union of the tags it holds and the new
  tags, the tags it holds first. Two inputs on which \<open>applyTags\<close> writes something
  else: a note whose tag field is empty gets the empty string as its first tag, since
  the empty text between the brackets splits into one empty piece; and a new tag \<open>$$\<close>
  is written as \<open>$\<close>, since the field is put in as a replacement template.
\<close>

theorem merge_writes_other_tags:
  "applyTags_text ''---\<newline>tags: []\<newline>---\<newline>body'' [''x'']
     = ''---\<newline>tags: ['' @ quoted [] @ '', '' @ quoted ''x'' @ '']\<newline>---\<newline>body'' \<and>
   applyTags_text ''---\<newline>tags: [a]\<newline>---\<newline>body'' [''$$'']
     = ''---\<newline>tags: ['' @ quoted ''a'' @ '', '' @ quoted ''$'' @ '']\<newline>---\<newline>body''"
  by (simp add: eval_defs)

text \<open>
  Claim C4 says that no header field other than the tag field is altered. The new header
  is put in as a replacement template, so a field that holds \<open>$$\<close> comes out with \<open>$\<close>:
  the formula of this note loses two of its four dollar signs.
\<close>

theorem dollar_field_altered:
  "applyTags_text ''---\<newline>formula: $$E=mc^2$$\<newline>---\<newline>body'' [''x'']
     = ''---\<newline>formula: $E=mc^2$\<newline>tags: ['' @ quoted ''x'' @ '']\<newline>---\<newline>body''"
  by (simp add: eval_defs)


text \<open>
  What holds of the header for every input: the text after the header block stays as it
  is. With no dollar sign in header body and tags the rest of the body stays too, around
  the tag field (\<open>applyTags_new_field\<close>, \<open>applyTags_merged_field\<close>). The tag pattern is
  not tied to the start of a line, so the field it finds may be the end of another key.
\<close>

lemma replace_str_keeps_rest: "replace_str pat t (pat @ r) = get_substitution pat [] r t @ r"
  by (simp add: replace_str_def find_first_prefix)

lemma applyTags_keeps_rest:
  assumes "frontmatter_match content = Some (m0, m1)"
  shows "\<exists>h r. content = m0 @ r \<and> applyTags_text content tags = h @ r"
proof -
  from frontmatter_match_Some [OF assms] obtain r where r: "content = m0 @ r" by blast
  have "\<exists>t. applyTags_text content tags = replace_str m0 t content"
    using assms by (auto simp: applyTags_text_def Let_def split: option.splits)
  then obtain t where "applyTags_text content tags = replace_str m0 t (m0 @ r)"
    using r by auto
  then have "applyTags_text content tags = get_substitution m0 [] r t @ r"
    by (simp only: replace_str_keeps_rest)
  with r show ?thesis by blast
qed

lemma other_key_rewritten:
  "applyTags_text ''---\<newline>mytags: [a]\<newline>---\<newline>body'' [''x'']
     = ''---\<newline>mytags: ['' @ quoted ''a'' @ '', '' @ quoted ''x'' @ '']\<newline>---\<newline>body''"
  by (simp add: eval_defs)

end
